theory Spec2Isabelle
  imports Main "HOL-Library.Sublist"
begin

section \<open>Run-time values and errors\<close>

text \<open>
  Several functions of \<^verbatim>\<open>ClientFactory.ts\<close> take a parameter of type
  \<^verbatim>\<open>unknown\<close>, and the value that \<^verbatim>\<open>jwt_decode\<close> and
  \<^verbatim>\<open>response.json()\<close> hand back is whatever JSON text was received. Such values
  are modelled by their run-time shape. An object is the list of its own properties.
  The module computes with no number: it tests one for truthiness or turns it into a
  string, so a number is kept as the text the language prints for it (\<^verbatim>\<open>42\<close>,
  \<^verbatim>\<open>0.5\<close>, \<^verbatim>\<open>1e+21\<close>; zero prints as \<^verbatim>\<open>0\<close> whatever its sign).
\<close>

datatype jsvalue =
    JUndefined
  | JNull
  | JBoolean bool
  | JNumber string
  | JString string
  | JArray "jsvalue list"
  | JObject "(string \<times> jsvalue) list"

text \<open>
  A thrown exception (a rejected promise, for the asynchronous functions) is the left
  summand of the result. \<open>Error\<close> and \<open>InvalidTokenError\<close> carry their message; the text
  of a \<open>TypeError\<close> raised by the engine itself is not fixed by the language.
\<close>

datatype error =
    Error string
  | InvalidTokenError string
  | TypeError

text \<open>\<^verbatim>\<open>!v\<close> is \<open>\<not> truthy v\<close>.\<close>

fun truthy :: "jsvalue \<Rightarrow> bool" where
  "truthy JUndefined = False"
| "truthy JNull = False"
| "truthy (JBoolean b) = b"
| "truthy (JNumber n) = (n \<noteq> ''0'' \<and> n \<noteq> ''NaN'')"
| "truthy (JString s) = (s \<noteq> [])"
| "truthy (JArray xs) = True"
| "truthy (JObject kvs) = True"

text \<open>
  \<^verbatim>\<open>v.k\<close>, the property read, for the names the module reads (\<^verbatim>\<open>client_id\<close>,
  \<^verbatim>\<open>access_token\<close>), none of which is an index or a built-in member of strings,
  numbers, booleans or arrays: reading from \<^verbatim>\<open>undefined\<close> or \<^verbatim>\<open>null\<close> throws,
  an object yields the property or \<^verbatim>\<open>undefined\<close>, everything else \<^verbatim>\<open>undefined\<close>.
\<close>

fun member :: "jsvalue \<Rightarrow> string \<Rightarrow> error + jsvalue" where
  "member JUndefined k = Inl TypeError"
| "member JNull k = Inl TypeError"
| "member (JObject kvs) k = Inr (case map_of kvs k of Some v \<Rightarrow> v | None \<Rightarrow> JUndefined)"
| "member v k = Inr JUndefined"

text \<open>
  \<^verbatim>\<open>k in v\<close>, for the one name the module asks for (\<^verbatim>\<open>"epic.eci"\<close>, no index and
  no built-in member of arrays): the operator throws on a value that is not an object.
\<close>

fun js_in :: "string \<Rightarrow> jsvalue \<Rightarrow> error + bool" where
  "js_in k (JObject kvs) = Inr (k \<in> set (map fst kvs))"
| "js_in k (JArray xs) = Inr False"
| "js_in k v = Inl TypeError"

text \<open>
  The conversion of a value to a string, as \<^verbatim>\<open>new URLSearchParams({...})\<close> applies it
  to every member of its argument. An array prints its elements separated by commas,
  \<^verbatim>\<open>undefined\<close> and \<^verbatim>\<open>null\<close> among them as nothing. An object prints as
  \<^verbatim>\<open>[object Object]\<close> through the \<^verbatim>\<open>toString\<close> it inherits; when it has a
  property \<^verbatim>\<open>toString\<close> of its own, which parsed JSON cannot make a function,
  no primitive value is found and the conversion throws. Strings are taken
  well-formed, so that they convert to themselves.
\<close>

fun js_string :: "jsvalue \<Rightarrow> error + string"
  and js_join :: "jsvalue list \<Rightarrow> error + string" where
  "js_string JUndefined = Inr ''undefined''"
| "js_string JNull = Inr ''null''"
| "js_string (JBoolean b) = Inr (if b then ''true'' else ''false'')"
| "js_string (JNumber n) = Inr n"
| "js_string (JString s) = Inr s"
| "js_string (JArray xs) = js_join xs"
| "js_string (JObject kvs) =
     (if ''toString'' \<in> set (map fst kvs) then Inl TypeError else Inr ''[object Object]'')"
| "js_join [] = Inr []"
| "js_join (x # xs) =
     (case (if x = JUndefined \<or> x = JNull then Inr [] else js_string x) of
        Inl e \<Rightarrow> Inl e
      | Inr s \<Rightarrow>
          if xs = [] then Inr s
          else (case js_join xs of
                  Inl e \<Rightarrow> Inl e
                | Inr t \<Rightarrow> Inr (s @ '','' @ t)))"

text \<open>
  \<^verbatim>\<open>s.includes(sub)\<close>: is there a position of \<open>s\<close> at which \<open>sub\<close> starts. Strings are
  sequences of code units; the needles of the module are ASCII, for which an
  occurrence among UTF-16 code units and among UTF-8 bytes is the same thing.
\<close>

fun includes_str :: "string \<Rightarrow> string \<Rightarrow> bool" where
  "includes_str [] sub = (sub = [])"
| "includes_str (c # cs) sub = (prefix sub (c # cs) \<or> includes_str cs sub)"


section \<open>The types of the module and of its imports\<close>

datatype EMR = CERNER | EPIC | SMART | NONE

datatype LAUNCH = EMR | STANDALONE | BACKEND

text \<open>
  \<^verbatim>\<open>EMR_ENDPOINTS\<close> is declared in \<^verbatim>\<open>BaseClient\<close>; the module reads its
  \<^verbatim>\<open>token\<close> and \<^verbatim>\<open>r4\<close> members, both URLs, kept as their text.
\<close>

record EMR_ENDPOINTS =
  token :: string
  r4 :: string

text \<open>
  The \<^verbatim>\<open>state\<close> of a FHIR client, with the three members the module reads or
  assigns. \<^verbatim>\<open>tokenResponse\<close> is an object once assigned.
\<close>

record ClientState =
  serverUrl :: string
  clientId :: jsvalue
  tokenResponse :: "(string \<times> jsvalue) list option"

record SubClient =
  state :: ClientState

datatype BaseClient = EpicClient SubClient | CernerClient SubClient

text \<open>
  The parameter of \<^verbatim>\<open>getEMRType\<close> is \<^verbatim>\<open>SubClient | JWT\<close>, told apart by
  \<^verbatim>\<open>instanceof SubClient\<close>.
\<close>

datatype clientOrToken = Client SubClient | Token jsvalue

text \<open>The request that \<^verbatim>\<open>fetch\<close> is given; the body is the \<^verbatim>\<open>URLSearchParams\<close>.\<close>

record request =
  url :: string
  mode :: string
  "method" :: string
  headers :: "(string \<times> string) list"
  body :: "(string \<times> string) list"

text \<open>
  What the module imports and does not define. \<^verbatim>\<open>jwt_decode\<close> is the default
  export of the package \<^verbatim>\<open>jwt-decode\<close>. \<^verbatim>\<open>instanceOfEmr\<close> is the type guard of
  \<^verbatim>\<open>SmartLaunchHandler\<close>: \<open>Some e\<close> when it holds of the value, which is then the
  member \<open>e\<close> of the enumeration, \<open>None\<close> when it does not. The two
  \<^verbatim>\<open>getEndpoints\<close> are the static methods of \<^verbatim>\<open>EpicClient\<close> and
  \<^verbatim>\<open>CernerClient\<close>. \<^verbatim>\<open>FHIR.oauth2.ready()\<close> and \<^verbatim>\<open>FHIR.client(url)\<close> belong to
  the package \<^verbatim>\<open>fhirclient\<close>.
\<close>

record modules =
  jwt_decode :: "string \<Rightarrow> error + jsvalue"
  instanceOfEmr :: "jsvalue \<Rightarrow> EMR option"
  EpicClient_getEndpoints :: EMR_ENDPOINTS
  CernerClient_getEndpoints :: EMR_ENDPOINTS
  oauth2_ready :: "error + SubClient"
  FHIR_client :: "string \<Rightarrow> error + SubClient"

text \<open>
  The environment of a call: the name/value pairs that
  \<^verbatim>\<open>new URLSearchParams(window.location.search)\<close> holds, in their order,
  \<^verbatim>\<open>window.location.origin\<close>, the two variables of \<^verbatim>\<open>process.env\<close> (\<open>None\<close> when
  not defined), and the answer of the network to a request: a rejection (of
  \<^verbatim>\<open>fetch\<close> or of \<^verbatim>\<open>response.json()\<close>) or the parsed body.
\<close>

record host =
  location_search :: "(string \<times> string) list"
  location_origin :: string
  REACT_APP_EMR_CLIENT_ID :: "string option"
  REACT_APP_EMR_TYPE :: "string option"
  fetch :: "request \<Rightarrow> error + jsvalue"


section \<open>The module\<close>

definition instanceOfJWT :: "jsvalue \<Rightarrow> error + bool" where
  "instanceOfJWT object =
     (case member object ''client_id'' of
        Inl e \<Rightarrow> Inl e
      | Inr v \<Rightarrow> Inr (v \<noteq> JUndefined))"

fun getEMRType :: "clientOrToken \<Rightarrow> error + EMR" where
  "getEMRType (Client c) =
     (if includes_str (serverUrl (state c)) ''cerner'' then Inr CERNER
      else if includes_str (serverUrl (state c)) ''smarthealthit'' then Inr SMART
      else if includes_str (serverUrl (state c)) ''epic'' then Inr EPIC
      else Inr NONE)"
| "getEMRType (Token t) =
     (case js_in ''epic.eci'' t of
        Inl e \<Rightarrow> Inl e
      | Inr b \<Rightarrow> if b then Inr EPIC else Inr NONE)"

definition getEmrTypeFromObject :: "modules \<Rightarrow> jsvalue \<Rightarrow> error + EMR" where
  "getEmrTypeFromObject m object =
     (case instanceOfJWT object of
        Inl e \<Rightarrow> Inl e
      | Inr isJwt \<Rightarrow>
          if isJwt then getEMRType (Token object)
          else (case instanceOfEmr m object of
                  Some e \<Rightarrow> Inr e
                | None \<Rightarrow> Inl (Error ''Invalid object type.'')))"

definition getEmrEndpoints :: "modules \<Rightarrow> jsvalue \<Rightarrow> error + EMR_ENDPOINTS" where
  "getEmrEndpoints m object =
     (case getEmrTypeFromObject m object of
        Inl e \<Rightarrow> Inl e
      | Inr EPIC \<Rightarrow> Inr (EpicClient_getEndpoints m)
      | Inr CERNER \<Rightarrow> Inr (CernerClient_getEndpoints m)
      | Inr SMART \<Rightarrow> Inl (Error ''EMR type not defined.'')
      | Inr NONE \<Rightarrow> Inl (Error ''EMR type not defined.''))"

definition codeToJwt :: "modules \<Rightarrow> string \<Rightarrow> error + jsvalue" where
  "codeToJwt m code = jwt_decode m code"

definition getCodeFromBrowserUrl :: "host \<Rightarrow> error + string" where
  "getCodeFromBrowserUrl h =
     (case map_of (location_search h) ''code'' of
        None \<Rightarrow> Inl (Error ''Could not find any JWT token.'')
      | Some code \<Rightarrow> Inr code)"

text \<open>The body of the \<^verbatim>\<open>try\<close> block of \<^verbatim>\<open>getRequiredTokenParameters\<close>.\<close>

definition tokenParametersFromCode ::
  "modules \<Rightarrow> string \<Rightarrow> error + (EMR_ENDPOINTS \<times> jsvalue)" where
  "tokenParametersFromCode m code =
     (case codeToJwt m code of
        Inl e \<Rightarrow> Inl e
      | Inr decodedJwt \<Rightarrow>
          (case getEmrEndpoints m decodedJwt of
             Inl e \<Rightarrow> Inl e
           | Inr endpoints \<Rightarrow>
               (case member decodedJwt ''client_id'' of
                  Inl e \<Rightarrow> Inl e
                | Inr cid \<Rightarrow> Inr (endpoints, cid))))"

text \<open>A variable of \<^verbatim>\<open>process.env\<close> is truthy when it is defined and not empty.\<close>

definition env_truthy :: "string option \<Rightarrow> bool" where
  "env_truthy v = (case v of None \<Rightarrow> False | Some s \<Rightarrow> s \<noteq> [])"

definition is_InvalidTokenError :: "error \<Rightarrow> bool" where
  "is_InvalidTokenError e = (case e of InvalidTokenError msg \<Rightarrow> True | _ \<Rightarrow> False)"

text \<open>
  The \<^verbatim>\<open>catch\<close> block of \<^verbatim>\<open>getRequiredTokenParameters\<close>. Its second test
  repeats part of the first and never fires; likewise the last case below is not
  reached, both variables being defined where the first test has passed.
\<close>

definition tokenParametersFromEnv ::
  "modules \<Rightarrow> host \<Rightarrow> error \<Rightarrow> error + (EMR_ENDPOINTS \<times> jsvalue)" where
  "tokenParametersFromEnv m h reason =
     (let clientIdFromEnv = REACT_APP_EMR_CLIENT_ID h;
          emrType = REACT_APP_EMR_TYPE h;
          isRequiredParamsGiven = (env_truthy emrType \<and> env_truthy clientIdFromEnv)
      in if \<not> isRequiredParamsGiven then
           (if is_InvalidTokenError reason then
              Inl (InvalidTokenError
                ''Cannot decode the Code for the EMR type. You must provide the client_id and emr_type explicitly'')
            else Inl reason)
         else if \<not> env_truthy emrType then
           Inl (Error ''EMR type cannot be inferred. You must provide the emr_type explicitly'')
         else
           (case (emrType, clientIdFromEnv) of
              (Some t, Some cid) \<Rightarrow>
                (case getEmrEndpoints m (JString t) of
                   Inl e \<Rightarrow> Inl e
                 | Inr endpoints \<Rightarrow> Inr (endpoints, JString cid))
            | _ \<Rightarrow> Inl reason))"

definition getRequiredTokenParameters ::
  "modules \<Rightarrow> host \<Rightarrow> string \<Rightarrow> error + (EMR_ENDPOINTS \<times> jsvalue)" where
  "getRequiredTokenParameters m h code =
     (case tokenParametersFromCode m code of
        Inr r \<Rightarrow> Inr r
      | Inl reason \<Rightarrow> tokenParametersFromEnv m h reason)"

text \<open>
  The callback that \<^verbatim>\<open>getAccessToken\<close> applies to the parsed body. A value that
  passes the test has a truthy \<^verbatim>\<open>access_token\<close> and so is an object; it is
  returned as its properties.
\<close>

definition checkTokenResponse :: "jsvalue \<Rightarrow> error + (string \<times> jsvalue) list" where
  "checkTokenResponse json =
     (case member json ''access_token'' of
        Inl e \<Rightarrow> Inl e
      | Inr tok \<Rightarrow>
          if \<not> truthy tok then
            Inl (Error ''Could not find any access token from the oauth endpoint's response'')
          else (case json of
                  JObject kvs \<Rightarrow> Inr kvs
                | _ \<Rightarrow> Inl (Error ''Could not find any access token from the oauth endpoint's response'')))"

text \<open>
  \<^verbatim>\<open>getAccessToken\<close> has the parameters of its declaration: the token endpoint, the
  code and the client id, a string. This is the request it hands to \<^verbatim>\<open>fetch\<close>.
\<close>

definition tokenRequest :: "host \<Rightarrow> string \<Rightarrow> string \<Rightarrow> string \<Rightarrow> request" where
  "tokenRequest h tokenEndpoint code cid =
     \<lparr> url = tokenEndpoint,
       mode = ''cors'', method = ''POST'',
       headers = [(''accept'', ''application/x-www-form-urlencoded'')],
       body = [(''grant_type'', ''authorization_code''),
               (''code'', code),
               (''redirect_uri'', location_origin h),
               (''client_id'', cid)] \<rparr>"

text \<open>
  The functions that reach the network take the list of the requests issued so far and
  return it extended: every call of \<^verbatim>\<open>fetch\<close> appends its request.
\<close>

definition getAccessToken ::
  "host \<Rightarrow> string \<Rightarrow> string \<Rightarrow> string \<Rightarrow> request list \<Rightarrow>
     (error + (string \<times> jsvalue) list) \<times> request list" where
  "getAccessToken h tokenEndpoint code cid log =
     (let req = tokenRequest h tokenEndpoint code cid
      in (case fetch h req of
            Inl e \<Rightarrow> Inl e
          | Inr json \<Rightarrow> checkTokenResponse json,
          log @ [req]))"

text \<open>
  The client id that \<^verbatim>\<open>getRequiredTokenParameters\<close> returns is whatever the decoded
  token holds under \<^verbatim>\<open>client_id\<close>. It is stored in the state of the client as it
  is, and it reaches the request as a string: the conversion that
  \<^verbatim>\<open>URLSearchParams\<close> makes while the arguments of \<^verbatim>\<open>fetch\<close> are built, before
  \<^verbatim>\<open>fetch\<close> is called, is placed at the call of \<^verbatim>\<open>getAccessToken\<close>.
\<close>

definition buildStandaloneFhirClient ::
  "modules \<Rightarrow> host \<Rightarrow> request list \<Rightarrow> (error + SubClient) \<times> request list" where
  "buildStandaloneFhirClient m h log =
     (case getCodeFromBrowserUrl h of
        Inl e \<Rightarrow> (Inl e, log)
      | Inr code \<Rightarrow>
          (case getRequiredTokenParameters m h code of
             Inl e \<Rightarrow> (Inl e, log)
           | Inr (endpoints, cid) \<Rightarrow>
               (case js_string cid of
                  Inl e \<Rightarrow> (Inl e, log)
                | Inr clientId_text \<Rightarrow>
                    (case getAccessToken h (token endpoints) code clientId_text log of
                       (Inl e, log') \<Rightarrow> (Inl e, log')
                     | (Inr response, log') \<Rightarrow>
                         (case FHIR_client m (r4 endpoints) of
                            Inl e \<Rightarrow> (Inl e, log')
                          | Inr defaultFhirClient \<Rightarrow>
                              (Inr (defaultFhirClient
                                      \<lparr> state := (state defaultFhirClient)
                                          \<lparr> clientId := cid,
                                            tokenResponse := Some response \<rparr> \<rparr>),
                               log'))))))"

definition createDefaultFhirClient ::
  "modules \<Rightarrow> host \<Rightarrow> LAUNCH \<Rightarrow> request list \<Rightarrow> (error + SubClient) \<times> request list" where
  "createDefaultFhirClient m h launchType log =
     (case launchType of
        EMR \<Rightarrow> (oauth2_ready m, log)
      | STANDALONE \<Rightarrow> buildStandaloneFhirClient m h log
      | BACKEND \<Rightarrow> (Inl (Error ''Unsupported provider for standalone launch''), log))"

definition createEMRClient ::
  "modules \<Rightarrow> host \<Rightarrow> LAUNCH \<Rightarrow> request list \<Rightarrow> (error + BaseClient) \<times> request list" where
  "createEMRClient m h launchType log =
     (case createDefaultFhirClient m h launchType log of
        (Inl e, log') \<Rightarrow> (Inl e, log')
      | (Inr defaultFhirClient, log') \<Rightarrow>
          (case getEMRType (Client defaultFhirClient) of
             Inl e \<Rightarrow> (Inl e, log')
           | Inr EPIC \<Rightarrow> (Inr (EpicClient defaultFhirClient), log')
           | Inr CERNER \<Rightarrow> (Inr (CernerClient defaultFhirClient), log')
           | Inr SMART \<Rightarrow> (Inl (Error ''Unsupported provider for EMR Client creation''), log')
           | Inr NONE \<Rightarrow> (Inl (Error ''Unsupported provider for EMR Client creation''), log')))"


text \<open>\<^verbatim>\<open>launchType\<close> defaults to \<^verbatim>\<open>LAUNCH.EMR\<close>: the call without an argument.\<close>

definition createEMRClient_default ::
  "modules \<Rightarrow> host \<Rightarrow> request list \<Rightarrow> (error + BaseClient) \<times> request list" where
  "createEMRClient_default m h log = createEMRClient m h EMR log"


section \<open>The token decoder\<close>

text \<open>\<^verbatim>\<open>s.split(sep)\<close> for a separator of one character: never the empty list.\<close>

fun split_str :: "char \<Rightarrow> string \<Rightarrow> string list" where
  "split_str sep [] = [[]]"
| "split_str sep (c # cs) =
     (if c = sep then [] # split_str sep cs
      else (case split_str sep cs of
              [] \<Rightarrow> [[c]]
            | part # parts \<Rightarrow> (c # part) # parts))"

text \<open>
  Modelled from the spec: \<^verbatim>\<open>jwt_decode\<close>, the default export of the package
  \<^verbatim>\<open>jwt-decode\<close>, is not among the sources. The spec has the token used
  ``opaquely as a vendor-identifying launch code, not as a verified credential'', read
  by ``a token decode'' that can fail: the decoder cuts the token at its dots, decodes
  the second part (the payload) and looks at no other part; whatever goes wrong is an
  \<open>InvalidTokenError\<close>. The decoding of the payload part itself (base64url, then JSON)
  is the parameter \<open>payload\<close>, \<open>None\<close> when it fails.
\<close>

definition jwt_decode_payload :: "(string \<Rightarrow> jsvalue option) \<Rightarrow> string \<Rightarrow> error + jsvalue" where
  "jwt_decode_payload payload tok =
     (case split_str CHR ''.'' tok of
        header # part # rest \<Rightarrow>
          (case payload part of
             Some v \<Rightarrow> Inr v
           | None \<Rightarrow> Inl (InvalidTokenError ''Invalid token specified''))
      | _ \<Rightarrow> Inl (InvalidTokenError ''Invalid token specified''))"


section \<open>A concrete installation\<close>

text \<open>
  One instance of the imports and of the environment, for evaluating the module on
  concrete inputs. The enumeration members carry their names in lower case. The
  decoder knows six payloads, the base64url forms of
  \<^verbatim>\<open>{"client_id":"my-app","epic.eci":"urn:epic:open"}\<close>, of
  \<^verbatim>\<open>{"client_id":"my-app"}\<close>, of
  \<^verbatim>\<open>{"client_id":{"toString":1},"epic.eci":"urn:epic:open"}\<close>, of the string
  \<^verbatim>\<open>"cerner"\<close>, of \<^verbatim>\<open>null\<close> and of \<^verbatim>\<open>{}\<close>. \<^verbatim>\<open>FHIR.client(url)\<close> builds a
  client whose state holds the server URL alone.
\<close>

definition example_instanceOfEmr :: "jsvalue \<Rightarrow> EMR option" where
  "example_instanceOfEmr v =
     (case v of
        JString s \<Rightarrow>
          (if s = ''cerner'' then Some CERNER
           else if s = ''epic'' then Some EPIC
           else if s = ''smart'' then Some SMART
           else if s = ''none'' then Some NONE
           else None)
      | _ \<Rightarrow> None)"

definition example_payload :: "string \<Rightarrow> jsvalue option" where
  "example_payload part =
     (if part = ''eyJjbGllbnRfaWQiOiJteS1hcHAiLCJlcGljLmVjaSI6InVybjplcGljOm9wZW4ifQ'' then
        Some (JObject [(''client_id'', JString ''my-app''), (''epic.eci'', JString ''urn:epic:open'')])
      else if part = ''eyJjbGllbnRfaWQiOiJteS1hcHAifQ'' then
        Some (JObject [(''client_id'', JString ''my-app'')])
      else if part = ''eyJjbGllbnRfaWQiOnsidG9TdHJpbmciOjF9LCJlcGljLmVjaSI6InVybjplcGljOm9wZW4ifQ'' then
        Some (JObject [(''client_id'', JObject [(''toString'', JNumber ''1'')]),
                       (''epic.eci'', JString ''urn:epic:open'')])
      else if part = ''ImNlcm5lciI'' then Some (JString ''cerner'')
      else if part = ''bnVsbA'' then Some JNull
      else if part = ''e30'' then Some (JObject [])
      else None)"

definition fhir_client :: "string \<Rightarrow> SubClient" where
  "fhir_client u = \<lparr> state = \<lparr> serverUrl = u, clientId = JUndefined, tokenResponse = None \<rparr> \<rparr>"

definition epic_endpoints :: EMR_ENDPOINTS where
  "epic_endpoints =
     \<lparr> token = ''https://fhir.epic.com/interconnect-fhir-oauth/oauth2/token'',
       r4 = ''https://fhir.epic.com/interconnect-fhir-oauth/api/FHIR/R4'' \<rparr>"

definition cerner_endpoints :: EMR_ENDPOINTS where
  "cerner_endpoints =
     \<lparr> token = ''https://authorization.cerner.com/tenants/t1/protocols/oauth2/profiles/smart-v1/token'',
       r4 = ''https://fhir-ehr-code.cerner.com/r4/t1'' \<rparr>"

definition example_modules :: modules where
  "example_modules =
     \<lparr> jwt_decode = jwt_decode_payload example_payload,
       instanceOfEmr = example_instanceOfEmr,
       EpicClient_getEndpoints = epic_endpoints,
       CernerClient_getEndpoints = cerner_endpoints,
       oauth2_ready = Inr (fhir_client ''https://launch.smarthealthit.org/v/r4/fhir''),
       FHIR_client = (\<lambda>u. Inr (fhir_client u)) \<rparr>"

definition example_token_response :: "(string \<times> jsvalue) list" where
  "example_token_response =
     [(''access_token'', JString ''Nxfve4q3H9TKs5F5vf6kRYAZqzK7j9LHvrg1Bw7fU_07''),
      (''token_type'', JString ''Bearer''),
      (''expires_in'', JNumber ''3600'')]"

definition example_host :: host where
  "example_host =
     \<lparr> location_search =
         [(''state'', ''abc123''),
          (''code'', ''eyJhbGciOiJSUzI1NiIsInR5cCI6IkpXVCJ9.eyJjbGllbnRfaWQiOiJteS1hcHAiLCJlcGljLmVjaSI6InVybjplcGljOm9wZW4ifQ.c2ln'')],
       location_origin = ''https://app.example.org'',
       REACT_APP_EMR_CLIENT_ID = None,
       REACT_APP_EMR_TYPE = None,
       fetch = (\<lambda>req. if url req = token epic_endpoints then Inr (JObject example_token_response)
                      else Inl TypeError) \<rparr>"


section \<open>Substring search\<close>

lemma includes_str_sublist: "includes_str s sub = sublist sub s"
  by (induction s) (simp_all add: sublist_Cons_right)

lemma includes_str_iff: "includes_str s sub \<longleftrightarrow> (\<exists>pre suf. s = pre @ sub @ suf)"
  by (simp add: includes_str_sublist sublist_def)


section \<open>Vendor detection\<close>

text \<open>
  C2. \<^verbatim>\<open>getEMRType\<close> decides by inspection alone. For a client it is the first of
  the tests ``the server URL contains \<^verbatim>\<open>cerner\<close>'', ``contains
  \<^verbatim>\<open>smarthealthit\<close>'', ``contains \<^verbatim>\<open>epic\<close>'' that holds which selects CERNER,
  SMART or EPIC, and NONE when none holds; containing is having the word as a
  contiguous part. For a token object it is EPIC exactly when the object has a
  property \<^verbatim>\<open>epic.eci\<close>, and NONE otherwise. The function never throws on these
  inputs.
\<close>

theorem getEMRType_decides:
  "getEMRType (Client c) =
     Inr (if (\<exists>pre suf. serverUrl (state c) = pre @ ''cerner'' @ suf) then CERNER
          else if (\<exists>pre suf. serverUrl (state c) = pre @ ''smarthealthit'' @ suf) then SMART
          else if (\<exists>pre suf. serverUrl (state c) = pre @ ''epic'' @ suf) then EPIC
          else NONE)
   \<and> getEMRType (Token (JObject jwt)) =
       Inr (if ''epic.eci'' \<in> fst ` set jwt then EPIC else NONE)"
  by (simp add: includes_str_iff)

theorem getEMRType_decides_witness:
  "getEMRType (Client (fhir_client ''https://fhir.epic.com/interconnect-fhir-oauth/api/FHIR/R4'')) = Inr EPIC
   \<and> getEMRType (Client (fhir_client ''https://fhir-ehr-code.cerner.com/r4/t1'')) = Inr CERNER
   \<and> getEMRType (Client (fhir_client ''https://launch.smarthealthit.org/v/r4/fhir'')) = Inr SMART
   \<and> getEMRType (Client (fhir_client ''https://hapi.fhir.org/baseR4'')) = Inr NONE
   \<and> getEMRType (Token (JObject [(''client_id'', JString ''my-app''), (''epic.eci'', JString ''urn:epic:open'')])) = Inr EPIC
   \<and> getEMRType (Token (JObject [(''client_id'', JString ''my-app'')])) = Inr NONE"
  using getEMRType_decides [of "fhir_client ''https://fhir.epic.com/interconnect-fhir-oauth/api/FHIR/R4''"
      "[(''client_id'', JString ''my-app''), (''epic.eci'', JString ''urn:epic:open'')]"]
    getEMRType_decides [of "fhir_client ''https://hapi.fhir.org/baseR4''" "[(''client_id'', JString ''my-app'')]"]
  by (simp add: fhir_client_def)

text \<open>
  C6. The tests on a client come in a fixed order. A server URL that contains
  \<^verbatim>\<open>cerner\<close> gives CERNER whatever else it contains, and one that contains
  \<^verbatim>\<open>smarthealthit\<close> and not \<^verbatim>\<open>cerner\<close> gives SMART, also when it contains
  \<^verbatim>\<open>epic\<close>.
\<close>

theorem getEMRType_precedence:
  "((\<exists>pre suf. serverUrl (state c) = pre @ ''cerner'' @ suf) \<longrightarrow>
      getEMRType (Client c) = Inr CERNER)
   \<and> ((\<exists>pre suf. serverUrl (state c) = pre @ ''smarthealthit'' @ suf)
        \<and> \<not> (\<exists>pre suf. serverUrl (state c) = pre @ ''cerner'' @ suf) \<longrightarrow>
      getEMRType (Client c) = Inr SMART)"
  by (simp add: includes_str_iff)

theorem getEMRType_precedence_witness:
  "getEMRType (Client (fhir_client ''https://epic.smarthealthit.cerner.example/r4'')) = Inr CERNER
   \<and> getEMRType (Client (fhir_client ''https://epic.smarthealthit.example/r4'')) = Inr SMART"
proof -
  let ?both = "fhir_client ''https://epic.smarthealthit.cerner.example/r4''"
  let ?smart = "fhir_client ''https://epic.smarthealthit.example/r4''"
  have c1: "\<exists>pre suf. serverUrl (state ?both) = pre @ ''cerner'' @ suf"
    unfolding includes_str_iff [symmetric] by (simp add: fhir_client_def)
  have c2: "\<exists>pre suf. serverUrl (state ?smart) = pre @ ''smarthealthit'' @ suf"
    unfolding includes_str_iff [symmetric] by (simp add: fhir_client_def)
  have c3: "\<not> (\<exists>pre suf. serverUrl (state ?smart) = pre @ ''cerner'' @ suf)"
    unfolding includes_str_iff [symmetric] by (simp add: fhir_client_def)
  from getEMRType_precedence [of ?both] c1
  have "getEMRType (Client ?both) = Inr CERNER"
    by blast
  moreover
  from getEMRType_precedence [of ?smart] c2 c3
  have "getEMRType (Client ?smart) = Inr SMART"
    by blast
  ultimately show ?thesis by simp
qed


section \<open>The client handed back\<close>

text \<open>
  C1, as the module has it. When the launch completes authentication, that is when
  \<^verbatim>\<open>createDefaultFhirClient\<close> resolves to a client, \<^verbatim>\<open>createEMRClient\<close> wraps that
  client in an \<^verbatim>\<open>EpicClient\<close> when the detected vendor is EPIC and in a
  \<^verbatim>\<open>CernerClient\<close> when it is CERNER; when the detected vendor is SMART or NONE it
  throws ``Unsupported provider for EMR Client creation''. It issues no request of its
  own.
\<close>

theorem createEMRClient_by_vendor:
  assumes "createDefaultFhirClient m h launchType log = (Inr c, log')"
  shows "(getEMRType (Client c) = Inr EPIC \<longrightarrow>
            createEMRClient m h launchType log = (Inr (EpicClient c), log'))
       \<and> (getEMRType (Client c) = Inr CERNER \<longrightarrow>
            createEMRClient m h launchType log = (Inr (CernerClient c), log'))
       \<and> (getEMRType (Client c) = Inr SMART \<or> getEMRType (Client c) = Inr NONE \<longrightarrow>
            createEMRClient m h launchType log =
              (Inl (Error ''Unsupported provider for EMR Client creation''), log'))"
  using assms by (auto simp: createEMRClient_def)

theorem createEMRClient_by_vendor_witness:
  "createEMRClient
       (example_modules\<lparr>oauth2_ready := Inr (fhir_client ''https://fhir.epic.com/interconnect-fhir-oauth/api/FHIR/R4'')\<rparr>)
       example_host EMR []
     = (Inr (EpicClient (fhir_client ''https://fhir.epic.com/interconnect-fhir-oauth/api/FHIR/R4'')), [])
   \<and> createEMRClient
       (example_modules\<lparr>oauth2_ready := Inr (fhir_client ''https://fhir-ehr-code.cerner.com/r4/t1'')\<rparr>)
       example_host EMR []
     = (Inr (CernerClient (fhir_client ''https://fhir-ehr-code.cerner.com/r4/t1'')), [])
   \<and> createEMRClient
       (example_modules\<lparr>oauth2_ready := Inr (fhir_client ''https://hapi.fhir.org/baseR4'')\<rparr>)
       example_host EMR []
     = (Inl (Error ''Unsupported provider for EMR Client creation''), [])"
proof -
  let ?e = "fhir_client ''https://fhir.epic.com/interconnect-fhir-oauth/api/FHIR/R4''"
  let ?c = "fhir_client ''https://fhir-ehr-code.cerner.com/r4/t1''"
  let ?n = "fhir_client ''https://hapi.fhir.org/baseR4''"
  have ready: "createDefaultFhirClient (example_modules\<lparr>oauth2_ready := Inr c\<rparr>) example_host EMR []
      = (Inr c, [])" for c
    by (simp add: createDefaultFhirClient_def)
  have epic: "getEMRType (Client ?e) = Inr EPIC"
    and cerner: "getEMRType (Client ?c) = Inr CERNER"
    and none: "getEMRType (Client ?n) = Inr NONE"
    by (simp_all add: fhir_client_def)
  from createEMRClient_by_vendor [OF ready [of ?e]] epic
  have "createEMRClient (example_modules\<lparr>oauth2_ready := Inr ?e\<rparr>) example_host EMR []
      = (Inr (EpicClient ?e), [])"
    by blast
  moreover
  from createEMRClient_by_vendor [OF ready [of ?c]] cerner
  have "createEMRClient (example_modules\<lparr>oauth2_ready := Inr ?c\<rparr>) example_host EMR []
      = (Inr (CernerClient ?c), [])"
    by blast
  moreover
  from createEMRClient_by_vendor [OF ready [of ?n]] none
  have "createEMRClient (example_modules\<lparr>oauth2_ready := Inr ?n\<rparr>) example_host EMR []
      = (Inl (Error ''Unsupported provider for EMR Client creation''), [])"
    by blast
  ultimately show ?thesis by blast
qed

text \<open>
  The launch of an application by the SMART Health IT sandbox completes authentication
  and is detected as SMART; no client comes back.
\<close>

theorem createEMRClient_SMART_counterexample:
  "createDefaultFhirClient example_modules example_host EMR []
     = (Inr (fhir_client ''https://launch.smarthealthit.org/v/r4/fhir''), [])
   \<and> getEMRType (Client (fhir_client ''https://launch.smarthealthit.org/v/r4/fhir'')) = Inr SMART
   \<and> createEMRClient example_modules example_host EMR []
     = (Inl (Error ''Unsupported provider for EMR Client creation''), [])"
  by (simp add: createEMRClient_def createDefaultFhirClient_def example_modules_def fhir_client_def)


section \<open>The query string and the token request\<close>

lemma map_of_first:
  "map_of xs k = Some v \<longleftrightarrow>
     (\<exists>before after. xs = before @ (k, v) # after \<and> k \<notin> fst ` set before)"
proof (induction xs)
  case Nil
  then show ?case by simp
next
  case (Cons p ps)
  obtain k' v' where p: "p = (k', v')" by (cases p)
  show ?case
  proof (cases "k' = k")
    case True
    have "(\<exists>before after. (k, v') # ps = before @ (k, v) # after \<and> k \<notin> fst ` set before)
            \<longleftrightarrow> v' = v"
    proof
      assume "\<exists>before after. (k, v') # ps = before @ (k, v) # after \<and> k \<notin> fst ` set before"
      then obtain before after where
        eq: "(k, v') # ps = before @ (k, v) # after" and notin: "k \<notin> fst ` set before"
        by blast
      show "v' = v"
      proof (cases before)
        case Nil
        with eq show ?thesis by simp
      next
        case (Cons b bs)
        with eq have "b = (k, v')" by simp
        with Cons notin show ?thesis by simp
      qed
    next
      assume "v' = v"
      then have "(k, v') # ps = [] @ (k, v) # ps \<and> k \<notin> fst ` set []" by simp
      then show "\<exists>before after. (k, v') # ps = before @ (k, v) # after \<and> k \<notin> fst ` set before"
        by blast
    qed
    with True p show ?thesis by simp
  next
    case False
    have "(\<exists>before after. (k', v') # ps = before @ (k, v) # after \<and> k \<notin> fst ` set before)
            \<longleftrightarrow> (\<exists>before after. ps = before @ (k, v) # after \<and> k \<notin> fst ` set before)"
    proof
      assume "\<exists>before after. (k', v') # ps = before @ (k, v) # after \<and> k \<notin> fst ` set before"
      then obtain before after where
        eq: "(k', v') # ps = before @ (k, v) # after" and notin: "k \<notin> fst ` set before"
        by blast
      show "\<exists>before after. ps = before @ (k, v) # after \<and> k \<notin> fst ` set before"
      proof (cases before)
        case Nil
        with eq False show ?thesis by simp
      next
        case (Cons b bs)
        with eq notin have "ps = bs @ (k, v) # after \<and> k \<notin> fst ` set bs" by simp
        then show ?thesis by blast
      qed
    next
      assume "\<exists>before after. ps = before @ (k, v) # after \<and> k \<notin> fst ` set before"
      then obtain before after where
        eq: "ps = before @ (k, v) # after" and notin: "k \<notin> fst ` set before"
        by blast
      with False have "(k', v') # ps = ((k', v') # before) @ (k, v) # after
          \<and> k \<notin> fst ` set ((k', v') # before)"
        by simp
      then show "\<exists>before after. (k', v') # ps = before @ (k, v) # after \<and> k \<notin> fst ` set before"
        by blast
    qed
    with False p Cons.IH show ?thesis by simp
  qed
qed

lemma map_of_absent: "map_of xs k = None \<longleftrightarrow> k \<notin> fst ` set xs"
  by (simp add: map_of_eq_None_iff)







text \<open>
  C8. \<^verbatim>\<open>getCodeFromBrowserUrl\<close> throws ``Could not find any JWT token.'' when the
  query string of the browser URL has no parameter \<^verbatim>\<open>code\<close>, and only then:
  otherwise it returns the value of the first such parameter as it stands. When the
  parameter is absent, \<^verbatim>\<open>createEMRClient(LAUNCH.STANDALONE)\<close> fails with that error
  and no request has been issued.
\<close>

theorem getCodeFromBrowserUrl_code:
  "(''code'' \<notin> fst ` set (location_search h) \<longrightarrow>
      getCodeFromBrowserUrl h = Inl (Error ''Could not find any JWT token.''))
   \<and> (''code'' \<in> fst ` set (location_search h) \<longrightarrow>
      (\<exists>before v after.
          location_search h = before @ (''code'', v) # after
        \<and> ''code'' \<notin> fst ` set before
        \<and> getCodeFromBrowserUrl h = Inr v))
   \<and> (''code'' \<notin> fst ` set (location_search h) \<longrightarrow>
      createEMRClient m h STANDALONE log = (Inl (Error ''Could not find any JWT token.''), log))"
proof -
  have absent: "getCodeFromBrowserUrl h = Inl (Error ''Could not find any JWT token.'')"
    if "''code'' \<notin> fst ` set (location_search h)"
  proof -
    from that have "map_of (location_search h) ''code'' = None"
      by (simp add: map_of_absent)
    then show ?thesis by (simp add: getCodeFromBrowserUrl_def)
  qed
  have present: "\<exists>before v after.
          location_search h = before @ (''code'', v) # after
        \<and> ''code'' \<notin> fst ` set before
        \<and> getCodeFromBrowserUrl h = Inr v"
    if "''code'' \<in> fst ` set (location_search h)"
  proof -
    from that map_of_absent [of "location_search h" "''code''"]
    have "map_of (location_search h) ''code'' \<noteq> None"
      by blast
    then obtain v where v: "map_of (location_search h) ''code'' = Some v"
      by blast
    then have "getCodeFromBrowserUrl h = Inr v"
      by (simp add: getCodeFromBrowserUrl_def)
    with v map_of_first [of "location_search h" "''code''" v] show ?thesis
      by blast
  qed
  have fails: "createEMRClient m h STANDALONE log = (Inl (Error ''Could not find any JWT token.''), log)"
    if "''code'' \<notin> fst ` set (location_search h)"
    using absent [OF that]
    by (simp add: createEMRClient_def createDefaultFhirClient_def buildStandaloneFhirClient_def)
  from absent present fails show ?thesis by blast
qed

theorem getCodeFromBrowserUrl_code_witness:
  "getCodeFromBrowserUrl (example_host\<lparr>location_search := [(''state'', ''abc123'')]\<rparr>)
     = Inl (Error ''Could not find any JWT token.'')
   \<and> createEMRClient example_modules (example_host\<lparr>location_search := [(''state'', ''abc123'')]\<rparr>) STANDALONE []
     = (Inl (Error ''Could not find any JWT token.''), [])
   \<and> getCodeFromBrowserUrl
        (example_host\<lparr>location_search := [(''state'', ''abc123''), (''code'', ''c0de''), (''code'', ''other'')]\<rparr>)
     = Inr ''c0de''"
proof -
  let ?none = "example_host\<lparr>location_search := [(''state'', ''abc123'')]\<rparr>"
  let ?some = "example_host\<lparr>location_search := [(''state'', ''abc123''), (''code'', ''c0de''), (''code'', ''other'')]\<rparr>"
  have a: "''code'' \<notin> fst ` set (location_search ?none)"
    by simp
  have b: "''code'' \<in> fst ` set (location_search ?some)"
    by simp
  from getCodeFromBrowserUrl_code [of ?none example_modules "[]"] a
  have "getCodeFromBrowserUrl ?none = Inl (Error ''Could not find any JWT token.'')"
    and "createEMRClient example_modules ?none STANDALONE [] = (Inl (Error ''Could not find any JWT token.''), [])"
    by blast+
  moreover
  from getCodeFromBrowserUrl_code [of ?some example_modules "[]"] b
  obtain before v after where
    eq: "location_search ?some = before @ (''code'', v) # after"
    and notin: "''code'' \<notin> fst ` set before"
    and res: "getCodeFromBrowserUrl ?some = Inr v"
    by blast
  have "getCodeFromBrowserUrl ?some = Inr ''c0de''"
    by (simp add: getCodeFromBrowserUrl_def)
  ultimately show ?thesis by simp
qed


section \<open>The default client\<close>

lemma example_code_decoded:
  "codeToJwt example_modules
     ''eyJhbGciOiJSUzI1NiIsInR5cCI6IkpXVCJ9.eyJjbGllbnRfaWQiOiJteS1hcHAiLCJlcGljLmVjaSI6InVybjplcGljOm9wZW4ifQ.c2ln''
   = Inr (JObject [(''client_id'', JString ''my-app''), (''epic.eci'', JString ''urn:epic:open'')])"
  by (simp add: codeToJwt_def example_modules_def jwt_decode_payload_def example_payload_def)

lemma example_code_parameters:
  "getRequiredTokenParameters example_modules example_host
     ''eyJhbGciOiJSUzI1NiIsInR5cCI6IkpXVCJ9.eyJjbGllbnRfaWQiOiJteS1hcHAiLCJlcGljLmVjaSI6InVybjplcGljOm9wZW4ifQ.c2ln''
   = Inr (epic_endpoints, JString ''my-app'')"
  by (simp add: getRequiredTokenParameters_def tokenParametersFromCode_def example_code_decoded
      getEmrEndpoints_def getEmrTypeFromObject_def instanceOfJWT_def)
    (simp add: example_modules_def)

lemma buildStandaloneFhirClient_log:
  "snd (buildStandaloneFhirClient m h log) =
     (case getCodeFromBrowserUrl h of
        Inl e \<Rightarrow> log
      | Inr code \<Rightarrow>
          (case getRequiredTokenParameters m h code of
             Inl e \<Rightarrow> log
           | Inr (endpoints, cid) \<Rightarrow>
               (case js_string cid of
                  Inl e \<Rightarrow> log
                | Inr cid_text \<Rightarrow> log @ [tokenRequest h (token endpoints) code cid_text])))"
  by (simp add: buildStandaloneFhirClient_def getAccessToken_def Let_def
      split: sum.splits prod.splits)

text \<open>
  C4, as the module has it. \<^verbatim>\<open>createDefaultFhirClient\<close> takes the host-provided
  client of \<^verbatim>\<open>FHIR.oauth2.ready()\<close> for the launch type EMR and throws ``Unsupported
  provider for standalone launch'' for BACKEND. It performs the exchange only for the
  launch type STANDALONE, and there exactly when the browser URL has a code,
  \<^verbatim>\<open>getRequiredTokenParameters\<close> yields endpoints and a client id for it, and the
  client id converts to a string. The one request is then a POST to the token endpoint
  that carries the grant type \<^verbatim>\<open>authorization_code\<close>, the code, the origin as
  redirect URI and the client id. When the answer is an object with a truthy
  \<^verbatim>\<open>access_token\<close> and \<^verbatim>\<open>FHIR.client\<close> builds a client for the R4 endpoint, that
  client is returned with the client id and the token response stored in its state.
  When the URL has no code the launch fails with the error of
  \<^verbatim>\<open>getCodeFromBrowserUrl\<close> and no request is issued.
\<close>

theorem createDefaultFhirClient_by_launch:
  "createDefaultFhirClient m h EMR log = (oauth2_ready m, log)
   \<and> createDefaultFhirClient m h BACKEND log =
       (Inl (Error ''Unsupported provider for standalone launch''), log)
   \<and> (snd (createDefaultFhirClient m h launchType log) \<noteq> log \<longleftrightarrow>
        launchType = STANDALONE
        \<and> (\<exists>code endpoints cid cid_text.
              getCodeFromBrowserUrl h = Inr code
            \<and> getRequiredTokenParameters m h code = Inr (endpoints, cid)
            \<and> js_string cid = Inr cid_text))
   \<and> (getCodeFromBrowserUrl h = Inr code
        \<and> getRequiredTokenParameters m h code = Inr (endpoints, cid)
        \<and> js_string cid = Inr cid_text \<longrightarrow>
      snd (createDefaultFhirClient m h STANDALONE log) =
        log @ [\<lparr> url = token endpoints, mode = ''cors'', method = ''POST'',
                  headers = [(''accept'', ''application/x-www-form-urlencoded'')],
                  body = [(''grant_type'', ''authorization_code''),
                          (''code'', code),
                          (''redirect_uri'', location_origin h),
                          (''client_id'', cid_text)] \<rparr>])
   \<and> (getCodeFromBrowserUrl h = Inr code
        \<and> getRequiredTokenParameters m h code = Inr (endpoints, cid)
        \<and> js_string cid = Inr cid_text
        \<and> fetch h \<lparr> url = token endpoints, mode = ''cors'', method = ''POST'',
                      headers = [(''accept'', ''application/x-www-form-urlencoded'')],
                      body = [(''grant_type'', ''authorization_code''),
                              (''code'', code),
                              (''redirect_uri'', location_origin h),
                              (''client_id'', cid_text)] \<rparr>
            = Inr (JObject response)
        \<and> map_of response ''access_token'' = Some tok \<and> truthy tok
        \<and> FHIR_client m (r4 endpoints) = Inr c \<longrightarrow>
      fst (createDefaultFhirClient m h STANDALONE log) =
        Inr (c\<lparr>state := (state c)\<lparr>clientId := cid, tokenResponse := Some response\<rparr>\<rparr>))
   \<and> (getCodeFromBrowserUrl h = Inl e \<longrightarrow>
      createDefaultFhirClient m h STANDALONE log = (Inl e, log))"
proof -
  let ?req = "\<lambda>endpoints code cid_text.
    \<lparr> url = token endpoints, mode = ''cors'', method = ''POST'',
      headers = [(''accept'', ''application/x-www-form-urlencoded'')],
      body = [(''grant_type'', ''authorization_code''),
              (''code'', code),
              (''redirect_uri'', location_origin h),
              (''client_id'', cid_text)] \<rparr>"
  have req: "tokenRequest h (token endpoints) code cid_text = ?req endpoints code cid_text"
    for endpoints code cid_text
    by (simp add: tokenRequest_def)
  have standalone: "createDefaultFhirClient m h STANDALONE log = buildStandaloneFhirClient m h log"
    by (simp add: createDefaultFhirClient_def)
  have emr: "createDefaultFhirClient m h EMR log = (oauth2_ready m, log)"
    and backend: "createDefaultFhirClient m h BACKEND log =
       (Inl (Error ''Unsupported provider for standalone launch''), log)"
    by (simp_all add: createDefaultFhirClient_def)
  have issued: "snd (createDefaultFhirClient m h STANDALONE log) = log @ [?req endpoints code cid_text]"
    if "getCodeFromBrowserUrl h = Inr code"
      and "getRequiredTokenParameters m h code = Inr (endpoints, cid)"
      and "js_string cid = Inr cid_text"
    using that by (simp add: standalone buildStandaloneFhirClient_log req)
  have exactly: "snd (createDefaultFhirClient m h launchType log) \<noteq> log \<longleftrightarrow>
        launchType = STANDALONE
        \<and> (\<exists>code endpoints cid cid_text.
              getCodeFromBrowserUrl h = Inr code
            \<and> getRequiredTokenParameters m h code = Inr (endpoints, cid)
            \<and> js_string cid = Inr cid_text)"
  proof (cases launchType)
    case EMR
    with emr show ?thesis by simp
  next
    case BACKEND
    with backend show ?thesis by simp
  next
    case STANDALONE
    show ?thesis
      unfolding STANDALONE standalone buildStandaloneFhirClient_log
      by (auto split: sum.splits prod.splits)
  qed
  have client: "fst (createDefaultFhirClient m h STANDALONE log) =
        Inr (c\<lparr>state := (state c)\<lparr>clientId := cid, tokenResponse := Some response\<rparr>\<rparr>)"
    if code: "getCodeFromBrowserUrl h = Inr code"
      and params: "getRequiredTokenParameters m h code = Inr (endpoints, cid)"
      and conv: "js_string cid = Inr cid_text"
      and answer: "fetch h (?req endpoints code cid_text) = Inr (JObject response)"
      and tok: "map_of response ''access_token'' = Some tok" "truthy tok"
      and fhir: "FHIR_client m (r4 endpoints) = Inr c"
  proof -
    from answer tok
    have "getAccessToken h (token endpoints) code cid_text log =
        (Inr response, log @ [tokenRequest h (token endpoints) code cid_text])"
      by (simp add: getAccessToken_def checkTokenResponse_def req)
    with code params conv fhir show ?thesis
      by (simp add: standalone buildStandaloneFhirClient_def)
  qed
  have nocode: "createDefaultFhirClient m h STANDALONE log = (Inl e, log)"
    if "getCodeFromBrowserUrl h = Inl e"
    using that by (simp add: standalone buildStandaloneFhirClient_def)
  from emr backend exactly issued client nocode show ?thesis
    by blast
qed

theorem createDefaultFhirClient_by_launch_witness:
  "createDefaultFhirClient example_modules example_host STANDALONE [] =
     (Inr \<lparr> state = \<lparr> serverUrl = ''https://fhir.epic.com/interconnect-fhir-oauth/api/FHIR/R4'',
                      clientId = JString ''my-app'',
                      tokenResponse = Some example_token_response \<rparr> \<rparr>,
      [\<lparr> url = ''https://fhir.epic.com/interconnect-fhir-oauth/oauth2/token'',
         mode = ''cors'', method = ''POST'',
         headers = [(''accept'', ''application/x-www-form-urlencoded'')],
         body = [(''grant_type'', ''authorization_code''),
                 (''code'', ''eyJhbGciOiJSUzI1NiIsInR5cCI6IkpXVCJ9.eyJjbGllbnRfaWQiOiJteS1hcHAiLCJlcGljLmVjaSI6InVybjplcGljOm9wZW4ifQ.c2ln''),
                 (''redirect_uri'', ''https://app.example.org''),
                 (''client_id'', ''my-app'')] \<rparr>])
   \<and> createDefaultFhirClient example_modules
        (example_host\<lparr>location_search := [(''state'', ''abc123'')]\<rparr>) STANDALONE []
       = (Inl (Error ''Could not find any JWT token.''), [])
   \<and> createDefaultFhirClient example_modules example_host EMR [] =
       (Inr (fhir_client ''https://launch.smarthealthit.org/v/r4/fhir''), [])
   \<and> createDefaultFhirClient example_modules example_host BACKEND [] =
       (Inl (Error ''Unsupported provider for standalone launch''), [])"
proof -
  let ?code = "''eyJhbGciOiJSUzI1NiIsInR5cCI6IkpXVCJ9.eyJjbGllbnRfaWQiOiJteS1hcHAiLCJlcGljLmVjaSI6InVybjplcGljOm9wZW4ifQ.c2ln''"
  let ?tok = "JString ''Nxfve4q3H9TKs5F5vf6kRYAZqzK7j9LHvrg1Bw7fU_07''"
  let ?req = "\<lparr> url = token epic_endpoints, mode = ''cors'', method = ''POST'',
      headers = [(''accept'', ''application/x-www-form-urlencoded'')],
      body = [(''grant_type'', ''authorization_code''),
              (''code'', ?code),
              (''redirect_uri'', location_origin example_host),
              (''client_id'', ''my-app'')] \<rparr>"
  let ?nocode = "example_host\<lparr>location_search := [(''state'', ''abc123'')]\<rparr>"
  have code: "getCodeFromBrowserUrl example_host = Inr ?code"
    by (simp add: getCodeFromBrowserUrl_def example_host_def)
  have conv: "js_string (JString ''my-app'') = Inr ''my-app''"
    by simp
  have answer: "fetch example_host ?req = Inr (JObject example_token_response)"
    by (simp add: example_host_def)
  have tok: "map_of example_token_response ''access_token'' = Some ?tok" "truthy ?tok"
    by (simp_all add: example_token_response_def)
  have fhir: "FHIR_client example_modules (r4 epic_endpoints) = Inr (fhir_client (r4 epic_endpoints))"
    by (simp add: example_modules_def)
  have ready: "oauth2_ready example_modules = Inr (fhir_client ''https://launch.smarthealthit.org/v/r4/fhir'')"
    by (simp add: example_modules_def)
  have absent: "getCodeFromBrowserUrl ?nocode = Inl (Error ''Could not find any JWT token.'')"
    by (simp add: getCodeFromBrowserUrl_def)
  note inst = createDefaultFhirClient_by_launch
    [of example_modules example_host "[]" EMR ?code epic_endpoints "JString ''my-app''" "''my-app''"
        example_token_response ?tok "fhir_client (r4 epic_endpoints)"]
  from inst code example_code_parameters conv
  have "snd (createDefaultFhirClient example_modules example_host STANDALONE []) = [] @ [?req]"
    by blast
  moreover
  from inst code example_code_parameters conv answer tok fhir
  have "fst (createDefaultFhirClient example_modules example_host STANDALONE []) =
      Inr ((fhir_client (r4 epic_endpoints))
             \<lparr>state := (state (fhir_client (r4 epic_endpoints)))
                \<lparr>clientId := JString ''my-app'', tokenResponse := Some example_token_response\<rparr>\<rparr>)"
    by blast
  ultimately have s: "createDefaultFhirClient example_modules example_host STANDALONE [] =
      (Inr \<lparr> state = \<lparr> serverUrl = ''https://fhir.epic.com/interconnect-fhir-oauth/api/FHIR/R4'',
                       clientId = JString ''my-app'',
                       tokenResponse = Some example_token_response \<rparr> \<rparr>,
       [\<lparr> url = ''https://fhir.epic.com/interconnect-fhir-oauth/oauth2/token'',
          mode = ''cors'', method = ''POST'',
          headers = [(''accept'', ''application/x-www-form-urlencoded'')],
          body = [(''grant_type'', ''authorization_code''),
                  (''code'', ?code),
                  (''redirect_uri'', ''https://app.example.org''),
                  (''client_id'', ''my-app'')] \<rparr>])"
    by (simp add: prod_eq_iff fhir_client_def epic_endpoints_def example_host_def)
  from createDefaultFhirClient_by_launch
    [of example_modules ?nocode "[]" EMR _ _ _ _ _ _ _ "Error ''Could not find any JWT token.''"]
    absent
  have n: "createDefaultFhirClient example_modules ?nocode STANDALONE []
      = (Inl (Error ''Could not find any JWT token.''), [])"
    by blast
  from inst ready
  have e: "createDefaultFhirClient example_modules example_host EMR [] =
       (Inr (fhir_client ''https://launch.smarthealthit.org/v/r4/fhir''), [])"
    by simp
  from inst
  have b: "createDefaultFhirClient example_modules example_host BACKEND [] =
       (Inl (Error ''Unsupported provider for standalone launch''), [])"
    by blast
  from s n e b show ?thesis by blast
qed

text \<open>
  A launch of type STANDALONE from a URL without a code performs no exchange.
\<close>

theorem createDefaultFhirClient_no_code_counterexample:
  "getCodeFromBrowserUrl (example_host\<lparr>location_search := [(''state'', ''abc123'')]\<rparr>)
     = Inl (Error ''Could not find any JWT token.'')
   \<and> createDefaultFhirClient example_modules
        (example_host\<lparr>location_search := [(''state'', ''abc123'')]\<rparr>) STANDALONE []
       = (Inl (Error ''Could not find any JWT token.''), [])"
  by (simp add: createDefaultFhirClient_def buildStandaloneFhirClient_def getCodeFromBrowserUrl_def)


section \<open>Endpoints from a token or from the environment\<close>

lemma instanceOfJWT_iff:
  "instanceOfJWT object = Inr True \<longleftrightarrow>
     (\<exists>kvs v. object = JObject kvs \<and> map_of kvs ''client_id'' = Some v \<and> v \<noteq> JUndefined)"
  by (cases object) (auto simp: instanceOfJWT_def split: option.splits)

lemma instanceOfJWT_total:
  "instanceOfJWT object = Inr True \<or> instanceOfJWT object = Inr False
     \<or> (instanceOfJWT object = Inl TypeError \<and> (object = JNull \<or> object = JUndefined))"
  by (cases object) (auto simp: instanceOfJWT_def split: option.splits)

lemma getEmrEndpoints_jwt:
  assumes "instanceOfJWT object = Inr True"
  shows "getEmrEndpoints m object =
     (if js_in ''epic.eci'' object = Inr True then Inr (EpicClient_getEndpoints m)
      else Inl (Error ''EMR type not defined.''))"
proof -
  from assms obtain kvs where "object = JObject kvs"
    unfolding instanceOfJWT_iff by blast
  with assms show ?thesis
    by (simp add: getEmrEndpoints_def getEmrTypeFromObject_def)
qed

lemma getEmrEndpoints_not_jwt:
  assumes "instanceOfJWT object = Inr False"
  shows "getEmrEndpoints m object =
     (case instanceOfEmr m object of
        Some EPIC \<Rightarrow> Inr (EpicClient_getEndpoints m)
      | Some CERNER \<Rightarrow> Inr (CernerClient_getEndpoints m)
      | Some SMART \<Rightarrow> Inl (Error ''EMR type not defined.'')
      | Some NONE \<Rightarrow> Inl (Error ''EMR type not defined.'')
      | None \<Rightarrow> Inl (Error ''Invalid object type.''))"
  using assms
  by (simp add: getEmrEndpoints_def getEmrTypeFromObject_def split: option.splits EMR.splits)

lemma getEmrEndpoints_null:
  "getEmrEndpoints m JNull = Inl TypeError" "getEmrEndpoints m JUndefined = Inl TypeError"
  by (simp_all add: getEmrEndpoints_def getEmrTypeFromObject_def instanceOfJWT_def)

text \<open>
  C5, as the module has it. For a token object \<^verbatim>\<open>getEMRType\<close> answers EPIC or NONE,
  never CERNER or SMART. A value is taken for a JWT exactly when it is an object with
  a \<^verbatim>\<open>client_id\<close>; for such a value \<^verbatim>\<open>getEmrEndpoints\<close> returns the endpoints of
  Epic or throws ``EMR type not defined.'', and the standalone flow, when it takes its
  parameters from such a decoded code without the fallback on the environment, has the
  endpoints of Epic. A decoded code of another shape is not taken for a JWT:
  \<^verbatim>\<open>null\<close> raises a \<open>TypeError\<close>, and every other value goes to the type guard
  \<^verbatim>\<open>instanceOfEmr\<close>, so that \<^verbatim>\<open>getEmrEndpoints\<close> returns the endpoints of Epic or
  of Cerner when the guard takes the value for EPIC or CERNER, throws ``EMR type not
  defined.'' for SMART or NONE and ``Invalid object type.'' when the guard refuses it.
\<close>

theorem decoded_code_endpoints:
  "(getEMRType (Token (JObject jwt)) = Inr EPIC \<or> getEMRType (Token (JObject jwt)) = Inr NONE)
   \<and> (instanceOfJWT object = Inr True \<longleftrightarrow>
        (\<exists>kvs v. object = JObject kvs \<and> map_of kvs ''client_id'' = Some v \<and> v \<noteq> JUndefined))
   \<and> (instanceOfJWT object = Inr True \<longrightarrow>
        getEmrEndpoints m object = Inr (EpicClient_getEndpoints m)
      \<or> getEmrEndpoints m object = Inl (Error ''EMR type not defined.''))
   \<and> (codeToJwt m code = Inr decoded \<and> instanceOfJWT decoded = Inr True
        \<and> tokenParametersFromCode m code = Inr (endpoints, cid) \<longrightarrow>
      endpoints = EpicClient_getEndpoints m)
   \<and> (object = JNull \<or> object = JUndefined \<longrightarrow> getEmrEndpoints m object = Inl TypeError)
   \<and> (object \<noteq> JNull \<and> object \<noteq> JUndefined \<and> instanceOfJWT object \<noteq> Inr True \<longrightarrow>
      getEmrEndpoints m object =
        (case instanceOfEmr m object of
           Some EPIC \<Rightarrow> Inr (EpicClient_getEndpoints m)
         | Some CERNER \<Rightarrow> Inr (CernerClient_getEndpoints m)
         | Some SMART \<Rightarrow> Inl (Error ''EMR type not defined.'')
         | Some NONE \<Rightarrow> Inl (Error ''EMR type not defined.'')
         | None \<Rightarrow> Inl (Error ''Invalid object type.'')))"
proof -
  have one: "getEMRType (Token (JObject jwt)) = Inr EPIC \<or> getEMRType (Token (JObject jwt)) = Inr NONE"
    by simp
  have two: "getEmrEndpoints m object = Inr (EpicClient_getEndpoints m)
      \<or> getEmrEndpoints m object = Inl (Error ''EMR type not defined.'')"
    if "instanceOfJWT object = Inr True"
    by (simp add: getEmrEndpoints_jwt [OF that])
  have three: "endpoints = EpicClient_getEndpoints m"
    if dec: "codeToJwt m code = Inr decoded" and jwt: "instanceOfJWT decoded = Inr True"
      and ok: "tokenParametersFromCode m code = Inr (endpoints, cid)"
  proof -
    from dec ok have "getEmrEndpoints m decoded = Inr endpoints"
      by (auto simp: tokenParametersFromCode_def split: sum.splits)
    with getEmrEndpoints_jwt [OF jwt, of m] show ?thesis
      by (simp split: if_splits)
  qed
  have four: "getEmrEndpoints m object = Inl TypeError"
    if "object = JNull \<or> object = JUndefined"
    using that getEmrEndpoints_null [of m] by blast
  have five: "getEmrEndpoints m object =
        (case instanceOfEmr m object of
           Some EPIC \<Rightarrow> Inr (EpicClient_getEndpoints m)
         | Some CERNER \<Rightarrow> Inr (CernerClient_getEndpoints m)
         | Some SMART \<Rightarrow> Inl (Error ''EMR type not defined.'')
         | Some NONE \<Rightarrow> Inl (Error ''EMR type not defined.'')
         | None \<Rightarrow> Inl (Error ''Invalid object type.''))"
    if "object \<noteq> JNull" "object \<noteq> JUndefined" "instanceOfJWT object \<noteq> Inr True"
  proof -
    from that instanceOfJWT_total [of object] have "instanceOfJWT object = Inr False"
      by blast
    then show ?thesis by (rule getEmrEndpoints_not_jwt)
  qed
  from one instanceOfJWT_iff [of object] two three four five show ?thesis
    by blast
qed

lemma example_string_code_decoded:
  "codeToJwt example_modules ''eyJhbGciOiJSUzI1NiIsInR5cCI6IkpXVCJ9.ImNlcm5lciI.c2ln'' = Inr (JString ''cerner'')"
  by (simp add: codeToJwt_def example_modules_def jwt_decode_payload_def example_payload_def)

theorem decoded_code_endpoints_witness:
  "getEmrEndpoints example_modules
        (JObject [(''client_id'', JString ''my-app''), (''epic.eci'', JString ''urn:epic:open'')])
       = Inr epic_endpoints
   \<and> getEmrEndpoints example_modules (JObject [(''client_id'', JString ''my-app'')])
       = Inl (Error ''EMR type not defined.'')
   \<and> tokenParametersFromCode example_modules
        ''eyJhbGciOiJSUzI1NiIsInR5cCI6IkpXVCJ9.eyJjbGllbnRfaWQiOiJteS1hcHAiLCJlcGljLmVjaSI6InVybjplcGljOm9wZW4ifQ.c2ln''
       = Inr (epic_endpoints, JString ''my-app'')
   \<and> epic_endpoints = EpicClient_getEndpoints example_modules
   \<and> getEmrEndpoints example_modules JNull = Inl TypeError
   \<and> getEmrEndpoints example_modules (JString ''cerner'') = Inr cerner_endpoints
   \<and> getEmrEndpoints example_modules (JObject []) = Inl (Error ''Invalid object type.'')"
proof -
  let ?epic = "JObject [(''client_id'', JString ''my-app''), (''epic.eci'', JString ''urn:epic:open'')]"
  let ?plain = "JObject [(''client_id'', JString ''my-app'')]"
  let ?code = "''eyJhbGciOiJSUzI1NiIsInR5cCI6IkpXVCJ9.eyJjbGllbnRfaWQiOiJteS1hcHAiLCJlcGljLmVjaSI6InVybjplcGljOm9wZW4ifQ.c2ln''"
  have j1: "instanceOfJWT ?epic = Inr True" and j2: "instanceOfJWT ?plain = Inr True"
    and j3: "instanceOfJWT (JString ''cerner'') \<noteq> Inr True"
    and j4: "instanceOfJWT (JObject []) \<noteq> Inr True"
    by (simp_all add: instanceOfJWT_def)
  have e1: "getEmrEndpoints example_modules ?epic \<noteq> Inl (Error ''EMR type not defined.'')"
    by (simp add: getEmrEndpoints_def getEmrTypeFromObject_def instanceOfJWT_def)
  have e2: "getEmrEndpoints example_modules ?plain \<noteq> Inr (EpicClient_getEndpoints example_modules)"
    by (simp add: getEmrEndpoints_def getEmrTypeFromObject_def instanceOfJWT_def)
  have eps: "EpicClient_getEndpoints example_modules = epic_endpoints"
    "CernerClient_getEndpoints example_modules = cerner_endpoints"
    by (simp_all add: example_modules_def)
  have guard: "instanceOfEmr example_modules (JString ''cerner'') = Some CERNER"
    "instanceOfEmr example_modules (JObject []) = None"
    by (simp_all add: example_modules_def example_instanceOfEmr_def)
  have params: "tokenParametersFromCode example_modules ?code = Inr (epic_endpoints, JString ''my-app'')"
    by (simp add: tokenParametersFromCode_def example_code_decoded
        getEmrEndpoints_def getEmrTypeFromObject_def instanceOfJWT_def)
      (simp add: example_modules_def)
  from decoded_code_endpoints [of _ ?epic example_modules] j1 e1 eps
  have "getEmrEndpoints example_modules ?epic = Inr epic_endpoints"
    by auto
  moreover
  from decoded_code_endpoints [of _ ?plain example_modules] j2 e2
  have "getEmrEndpoints example_modules ?plain = Inl (Error ''EMR type not defined.'')"
    by blast
  moreover
  from decoded_code_endpoints [of _ _ example_modules ?code ?epic epic_endpoints "JString ''my-app''"]
    example_code_decoded j1 params
  have "epic_endpoints = EpicClient_getEndpoints example_modules"
    by blast
  moreover
  from decoded_code_endpoints [of _ JNull example_modules]
  have "getEmrEndpoints example_modules JNull = Inl TypeError"
    by blast
  moreover
  from decoded_code_endpoints [of _ "JString ''cerner''" example_modules] j3
  have "getEmrEndpoints example_modules (JString ''cerner'') =
      (case instanceOfEmr example_modules (JString ''cerner'') of
         Some EPIC \<Rightarrow> Inr (EpicClient_getEndpoints example_modules)
       | Some CERNER \<Rightarrow> Inr (CernerClient_getEndpoints example_modules)
       | Some SMART \<Rightarrow> Inl (Error ''EMR type not defined.'')
       | Some NONE \<Rightarrow> Inl (Error ''EMR type not defined.'')
       | None \<Rightarrow> Inl (Error ''Invalid object type.''))"
    by blast
  with guard eps have "getEmrEndpoints example_modules (JString ''cerner'') = Inr cerner_endpoints"
    by simp
  moreover
  from decoded_code_endpoints [of _ "JObject []" example_modules] j4
  have "getEmrEndpoints example_modules (JObject []) =
      (case instanceOfEmr example_modules (JObject []) of
         Some EPIC \<Rightarrow> Inr (EpicClient_getEndpoints example_modules)
       | Some CERNER \<Rightarrow> Inr (CernerClient_getEndpoints example_modules)
       | Some SMART \<Rightarrow> Inl (Error ''EMR type not defined.'')
       | Some NONE \<Rightarrow> Inl (Error ''EMR type not defined.'')
       | None \<Rightarrow> Inl (Error ''Invalid object type.''))"
    by blast
  with guard have "getEmrEndpoints example_modules (JObject []) = Inl (Error ''Invalid object type.'')"
    by simp
  ultimately show ?thesis using params by blast
qed

text \<open>
  A code whose payload is the JSON string \<^verbatim>\<open>"cerner"\<close> is given the endpoints of
  Cerner by the \<^verbatim>\<open>try\<close> block, with no fallback on the environment; a payload
  \<^verbatim>\<open>null\<close> raises a \<open>TypeError\<close> and a payload \<^verbatim>\<open>{}\<close> ``Invalid object type.''.
\<close>

theorem decoded_code_not_jwt_counterexample:
  "codeToJwt example_modules ''eyJhbGciOiJSUzI1NiIsInR5cCI6IkpXVCJ9.ImNlcm5lciI.c2ln'' = Inr (JString ''cerner'')
   \<and> tokenParametersFromCode example_modules ''eyJhbGciOiJSUzI1NiIsInR5cCI6IkpXVCJ9.ImNlcm5lciI.c2ln''
       = Inr (cerner_endpoints, JUndefined)
   \<and> getRequiredTokenParameters example_modules example_host
        ''eyJhbGciOiJSUzI1NiIsInR5cCI6IkpXVCJ9.ImNlcm5lciI.c2ln''
       = Inr (cerner_endpoints, JUndefined)
   \<and> codeToJwt example_modules ''eyJhbGciOiJSUzI1NiIsInR5cCI6IkpXVCJ9.bnVsbA.c2ln'' = Inr JNull
   \<and> getEmrEndpoints example_modules JNull = Inl TypeError
   \<and> codeToJwt example_modules ''eyJhbGciOiJSUzI1NiIsInR5cCI6IkpXVCJ9.e30.c2ln'' = Inr (JObject [])
   \<and> getEmrEndpoints example_modules (JObject []) = Inl (Error ''Invalid object type.'')"
proof -
  have dec: "codeToJwt example_modules ''eyJhbGciOiJSUzI1NiIsInR5cCI6IkpXVCJ9.bnVsbA.c2ln'' = Inr JNull"
    "codeToJwt example_modules ''eyJhbGciOiJSUzI1NiIsInR5cCI6IkpXVCJ9.e30.c2ln'' = Inr (JObject [])"
    by (simp_all add: codeToJwt_def example_modules_def jwt_decode_payload_def example_payload_def)
  have eps: "getEmrEndpoints example_modules (JString ''cerner'') = Inr cerner_endpoints"
    "getEmrEndpoints example_modules JNull = Inl TypeError"
    "getEmrEndpoints example_modules (JObject []) = Inl (Error ''Invalid object type.'')"
    by (simp_all add: getEmrEndpoints_def getEmrTypeFromObject_def instanceOfJWT_def
        example_modules_def example_instanceOfEmr_def)
  have try_block: "tokenParametersFromCode example_modules ''eyJhbGciOiJSUzI1NiIsInR5cCI6IkpXVCJ9.ImNlcm5lciI.c2ln''
       = Inr (cerner_endpoints, JUndefined)"
    by (simp add: tokenParametersFromCode_def example_string_code_decoded eps)
  then have "getRequiredTokenParameters example_modules example_host
        ''eyJhbGciOiJSUzI1NiIsInR5cCI6IkpXVCJ9.ImNlcm5lciI.c2ln''
       = Inr (cerner_endpoints, JUndefined)"
    by (simp add: getRequiredTokenParameters_def)
  with example_string_code_decoded try_block dec eps show ?thesis by simp
qed

















section \<open>The signature of the token\<close>

lemma split_str_first:
  "sep \<notin> set a \<Longrightarrow> split_str sep (a @ sep # rest) = a # split_str sep rest"
  by (induction a) (auto split: list.splits)

lemma jwt_decode_payload_part:
  assumes "CHR ''.'' \<notin> set header" and "CHR ''.'' \<notin> set part"
  shows "jwt_decode_payload payload (header @ ''.'' @ part @ ''.'' @ signature) =
     (case payload part of
        Some v \<Rightarrow> Inr v
      | None \<Rightarrow> Inl (InvalidTokenError ''Invalid token specified''))"
proof -
  have "split_str CHR ''.'' (header @ ''.'' @ part @ ''.'' @ signature)
      = header # part # split_str CHR ''.'' signature"
    using assms by (simp add: split_str_first)
  then show ?thesis
    by (simp add: jwt_decode_payload_def)
qed

text \<open>
  C9. With the decoder as modelled above, \<^verbatim>\<open>codeToJwt\<close> reads the payload part of
  the token alone. Two tokens with the same header and payload and any two
  signatures, well-formed or not, decode to the same value (or both fail to decode),
  and so give the same detected vendor, the same endpoints and client id.
\<close>

theorem codeToJwt_ignores_signature:
  assumes "jwt_decode m = jwt_decode_payload payload"
    and "CHR ''.'' \<notin> set header" and "CHR ''.'' \<notin> set part"
  shows "codeToJwt m (header @ ''.'' @ part @ ''.'' @ signature)
           = codeToJwt m (header @ ''.'' @ part @ ''.'' @ signature')
       \<and> (case codeToJwt m (header @ ''.'' @ part @ ''.'' @ signature) of
             Inl e \<Rightarrow> Inl e | Inr decoded \<Rightarrow> getEmrTypeFromObject m decoded)
           = (case codeToJwt m (header @ ''.'' @ part @ ''.'' @ signature') of
                Inl e \<Rightarrow> Inl e | Inr decoded \<Rightarrow> getEmrTypeFromObject m decoded)
       \<and> tokenParametersFromCode m (header @ ''.'' @ part @ ''.'' @ signature)
           = tokenParametersFromCode m (header @ ''.'' @ part @ ''.'' @ signature')
       \<and> getRequiredTokenParameters m h (header @ ''.'' @ part @ ''.'' @ signature)
           = getRequiredTokenParameters m h (header @ ''.'' @ part @ ''.'' @ signature')"
proof -
  have same: "codeToJwt m (header @ ''.'' @ part @ ''.'' @ signature)
           = codeToJwt m (header @ ''.'' @ part @ ''.'' @ signature')"
    unfolding codeToJwt_def assms(1)
    by (simp only: jwt_decode_payload_part [OF assms(2,3)])
  then show ?thesis
    by (simp add: tokenParametersFromCode_def getRequiredTokenParameters_def)
qed

theorem codeToJwt_ignores_signature_witness:
  "codeToJwt example_modules
     ''eyJhbGciOiJSUzI1NiIsInR5cCI6IkpXVCJ9.eyJjbGllbnRfaWQiOiJteS1hcHAiLCJlcGljLmVjaSI6InVybjplcGljOm9wZW4ifQ.c2ln''
     = Inr (JObject [(''client_id'', JString ''my-app''), (''epic.eci'', JString ''urn:epic:open'')])
   \<and> codeToJwt example_modules
     ''eyJhbGciOiJSUzI1NiIsInR5cCI6IkpXVCJ9.eyJjbGllbnRfaWQiOiJteS1hcHAiLCJlcGljLmVjaSI6InVybjplcGljOm9wZW4ifQ.Zm9yZ2Vk''
     = Inr (JObject [(''client_id'', JString ''my-app''), (''epic.eci'', JString ''urn:epic:open'')])
   \<and> getRequiredTokenParameters example_modules example_host
     ''eyJhbGciOiJSUzI1NiIsInR5cCI6IkpXVCJ9.eyJjbGllbnRfaWQiOiJteS1hcHAiLCJlcGljLmVjaSI6InVybjplcGljOm9wZW4ifQ.Zm9yZ2Vk''
     = Inr (epic_endpoints, JString ''my-app'')"
proof -
  let ?header = "''eyJhbGciOiJSUzI1NiIsInR5cCI6IkpXVCJ9''"
  let ?part = "''eyJjbGllbnRfaWQiOiJteS1hcHAiLCJlcGljLmVjaSI6InVybjplcGljOm9wZW4ifQ''"
  have dec: "jwt_decode example_modules = jwt_decode_payload example_payload"
    by (simp add: example_modules_def)
  have nodot: "CHR ''.'' \<notin> set ?header" "CHR ''.'' \<notin> set ?part"
    by simp_all
  note inst = codeToJwt_ignores_signature
    [OF dec nodot, of "''c2ln''" "''Zm9yZ2Vk''" example_host]
  from inst example_code_decoded example_code_parameters show ?thesis
    by simp
qed

end
